theory Spec2Isabelle
  imports Main "HOL-Library.Sublist"
begin

section \<open>The trace logging transport of bluemix/http/transport.go\<close>

text \<open>
  The file wraps a \<^verbatim>\<open>http.RoundTripper\<close>: \<^verbatim>\<open>RoundTrip\<close> dumps the request to the
  trace logger, forwards it to the wrapped round tripper and, when that one returns
  no error, dumps the response. Everything the three methods call lives outside the
  file (the Go standard library, and the packages \<^verbatim>\<open>trace\<close>, \<^verbatim>\<open>terminal\<close> and
  \<^verbatim>\<open>i18n\<close>); those parts are parameters of the model, collected in the record \<open>env\<close>,
  or modelled from the specification where a property is about them.
\<close>

subsection \<open>Data\<close>

text \<open>A Go \<^verbatim>\<open>error\<close> value; \<^verbatim>\<open>err.Error()\<close> is its message.\<close>

datatype error = Error (message: string)

text \<open>
  An \<^verbatim>\<open>io.ReadCloser\<close> is a single-use stream: the model keeps the bytes that have
  not been read yet. Reading to the end hands them out and leaves nothing.
\<close>

datatype ReadCloser = Reader (unread: string)

text \<open>The bytes a reader still gets out of a body; the nil body has none.\<close>

definition unreadBytes :: "ReadCloser option \<Rightarrow> string" where
  "unreadBytes b = (case b of None \<Rightarrow> [] | Some s \<Rightarrow> unread s)"

text \<open>\<^verbatim>\<open>http.Header\<close> is \<^verbatim>\<open>map[string][]string\<close>.\<close>

type_synonym Header = "string \<rightharpoonup> string list"

text \<open>
  The fields of \<^verbatim>\<open>http.Request\<close> and \<^verbatim>\<open>http.Response\<close> that the transport and the
  dumps look at. Both carry a header and a body (\<open>None\<close> is the nil body).
\<close>

record Message =
  Header :: Header
  Body :: "ReadCloser option"

record Request = Message +
  Method :: string
  URL :: string

record Response = Message +
  Status :: string

text \<open>
  \<^verbatim>\<open>time.Time\<close> as \<^verbatim>\<open>time.Now()\<close> returns it: a wall clock reading and a monotonic
  reading, both in nanoseconds. \<^verbatim>\<open>Duration\<close> is an \<^verbatim>\<open>int64\<close> of nanoseconds.
\<close>

record Time =
  wall :: int
  mono :: int

type_synonym Duration = int

text \<open>
  The calls made on \<^verbatim>\<open>trace.Logger\<close>. An argument of \<^verbatim>\<open>Printf\<close> is a string
  (verb \<^verbatim>\<open>%s\<close>) or the \<^verbatim>\<open>float64\<close> value \<^verbatim>\<open>d.Seconds()*1000\<close> of a duration \<open>d\<close>
  (verb \<^verbatim>\<open>%.0f\<close>); the latter is kept as the duration, and \<open>formatMillis\<close> below
  gives what the verb writes for it.
\<close>

datatype arg = Str string | Millis Duration

datatype call = PrintfCall string "arg list" | PrintlnCall string

text \<open>
  The log sink (\<^verbatim>\<open>trace.Printer\<close>): what \<^verbatim>\<open>Printf\<close> and \<^verbatim>\<open>Println\<close> do to the
  state \<open>'s\<close> of the sink.
\<close>

record 's Printer =
  Printf :: "string \<Rightarrow> arg list \<Rightarrow> 's \<Rightarrow> 's"
  Println :: "string \<Rightarrow> 's \<Rightarrow> 's"

text \<open>A sink that records every call, and the sink of disabled tracing.\<close>

definition recorder :: "call list Printer" where
  "recorder = \<lparr>Printf = (\<lambda>format args s. s @ [PrintfCall format args]),
               Println = (\<lambda>line s. s @ [PrintlnCall line])\<rparr>"

definition NullLogger :: "unit Printer" where
  "NullLogger = \<lparr>Printf = (\<lambda>format args s. s), Println = (\<lambda>line s. s)\<rparr>"

text \<open>\<^verbatim>\<open>http.RoundTripper\<close>: the request in, the pair \<^verbatim>\<open>(*Response, error)\<close> out.\<close>

type_synonym RoundTripper = "Request \<Rightarrow> Response option \<times> error option"

record TraceLoggingTransport =
  rt :: RoundTripper

text \<open>
  What the file takes from outside:
  \<^item> \<open>DefaultTransport\<close>: \<^verbatim>\<open>http.DefaultTransport\<close>;
  \<^item> \<open>Now n\<close>: what the \<open>n\<close>-th call of \<^verbatim>\<open>time.Now()\<close> returns;
  \<^item> \<open>RFC3339\<close>: \<^verbatim>\<open>t.Format(time.RFC3339)\<close>;
  \<^item> \<open>T\<close>: the translation function of package \<^verbatim>\<open>i18n\<close>, a template and its
    substitutions;
  \<^item> \<open>HeaderColor\<close>: \<^verbatim>\<open>terminal.HeaderColor\<close>;
  \<^item> \<open>Sanitize\<close>: \<^verbatim>\<open>trace.Sanitize\<close>;
  \<^item> \<open>request_head\<close>, \<open>response_head\<close>: the text of the first line and the headers
    in a dump, or the error that makes the dump fail.
\<close>

record env =
  DefaultTransport :: RoundTripper
  Now :: "nat \<Rightarrow> Time"
  RFC3339 :: "Time \<Rightarrow> string"
  T :: "string \<Rightarrow> (string \<times> string) list \<Rightarrow> string"
  HeaderColor :: "string \<Rightarrow> string"
  Sanitize :: "string \<Rightarrow> string"
  request_head :: "Request \<Rightarrow> error + string"
  response_head :: "Response \<Rightarrow> error + string"

text \<open>
  The state a call runs in: the state of the log sink, and how many times the clock
  has been read.
\<close>

record 's world =
  sink :: 's
  ticks :: nat

text \<open>A call returns, or panics.\<close>

datatype 'a outcome = Returned 'a | Panicked

subsection \<open>Library functions\<close>

text \<open>\<^verbatim>\<open>strings.Contains(s, substr)\<close>: \<open>substr\<close> occurs within \<open>s\<close>.\<close>

fun Contains :: "string \<Rightarrow> string \<Rightarrow> bool" where
  "Contains [] substr = (substr = [])"
| "Contains (c # cs) substr = (prefix substr (c # cs) \<or> Contains cs substr)"

text \<open>
  \<^verbatim>\<open>Header.Get(key)\<close> for a key in canonical form, as \<^verbatim>\<open>"Content-Type"\<close> is: the
  first value stored under the key, the empty string when there is none.
\<close>

definition Header_Get :: "Header \<Rightarrow> string \<Rightarrow> string" where
  "Header_Get h key = (case h key of None \<Rightarrow> [] | Some [] \<Rightarrow> [] | Some (v # vs) \<Rightarrow> v)"

text \<open>
  Modelled from the spec: \<^verbatim>\<open>t.Sub(u)\<close> of package \<^verbatim>\<open>time\<close> is not in the source tree.
  The specification has the elapsed time as \<^verbatim>\<open>end - start\<close>; for two readings of
  \<^verbatim>\<open>time.Now()\<close> that is the difference of the monotonic readings, in nanoseconds.
\<close>

definition Sub :: "Time \<Rightarrow> Time \<Rightarrow> Duration" where
  "Sub t u = mono t - mono u"









text \<open>
  Modelled from the spec: \<^verbatim>\<open>httputil.DumpRequest\<close> and \<^verbatim>\<open>httputil.DumpResponse\<close> of the
  Go standard library are not in the source tree. The specification asks for the first
  line, the headers and, when asked for, the body in a textual dump, for a dump that
  may fail, and for a buffer-and-restore discipline on the body stream: the stream is
  read to its end into a buffer, the dump is written from the buffer, and a fresh
  stream over the buffered bytes takes the place of the one that was read. Reading a
  stream to its end gives its bytes and leaves it exhausted.
\<close>

definition drainBody :: "ReadCloser \<Rightarrow> string \<times> ReadCloser" where
  "drainBody b = (unread b, Reader [])"

text \<open>
  Modelled from the spec: the dump of a request, \<^verbatim>\<open>httputil.DumpRequest(req, body)\<close>.
  It returns the text or the error, and the request as the dump leaves it.
\<close>

definition DumpRequest :: "env \<Rightarrow> Request \<Rightarrow> bool \<Rightarrow> (error + string) \<times> Request" where
  "DumpRequest e req body =
     (case Body req of
        None \<Rightarrow> (request_head e req, req)
      | Some b \<Rightarrow>
          if body then
            (let (buf, drained) = drainBody b;
                 save = Reader buf
             in (case request_head e req of
                   Inl err \<Rightarrow> (Inl err, req\<lparr>Body := Some save\<rparr>)
                 | Inr head \<Rightarrow> (Inr (head @ buf), req\<lparr>Body := Some save\<rparr>)))
          else (request_head e req, req))"

text \<open>
  Modelled from the spec: the dump of a response, \<^verbatim>\<open>httputil.DumpResponse(res, body)\<close>.
  It returns the text or the error, and the response as the dump leaves it.
\<close>

definition DumpResponse :: "env \<Rightarrow> Response \<Rightarrow> bool \<Rightarrow> (error + string) \<times> Response" where
  "DumpResponse e res body =
     (case Body res of
        None \<Rightarrow> (response_head e res, res)
      | Some b \<Rightarrow>
          if body then
            (let (buf, drained) = drainBody b;
                 save = Reader buf
             in (case response_head e res of
                   Inl err \<Rightarrow> (Inl err, res\<lparr>Body := Some save\<rparr>)
                 | Inr head \<Rightarrow> (Inr (head @ buf), res\<lparr>Body := Some save\<rparr>)))
          else (response_head e res, res))"

subsection \<open>The transport\<close>

definition NewTraceLoggingTransport :: "env \<Rightarrow> RoundTripper option \<Rightarrow> TraceLoggingTransport" where
  "NewTraceLoggingTransport e rt' =
     (case rt' of
        None \<Rightarrow> \<lparr>rt = DefaultTransport e\<rparr>
      | Some x \<Rightarrow> \<lparr>rt = x\<rparr>)"

text \<open>
  \<^verbatim>\<open>dumpRequest\<close> works on the request through a pointer; the model returns the request
  as the dump leaves it, next to the new state of the sink.
\<close>

definition dumpRequest :: "env \<Rightarrow> 's Printer \<Rightarrow> Request \<Rightarrow> Time \<Rightarrow> 's \<Rightarrow> Request \<times> 's" where
  "dumpRequest e L req start s =
     (let shouldDisplayBody =
            (\<not> Contains (Header_Get (Header req) ''Content-Type'') ''multipart/form-data'')
      in case DumpRequest e req shouldDisplayBody of
           (Inl err, req') \<Rightarrow>
             (req', Printf L (T e ''An error occurred while dumping request:\<newline>{{.Error}}\<newline>''
                               [(''Error'', message err)]) [] s)
         | (Inr dumpedRequest, req') \<Rightarrow>
             (let s' = Printf L ''\<newline>%s [%s]\<newline>%s\<newline>''
                         [Str (HeaderColor e (T e ''REQUEST:'' [])),
                          Str (RFC3339 e start),
                          Str (Sanitize e dumpedRequest)] s
              in (req', if \<not> shouldDisplayBody
                        then Println L ''[MULTIPART/FORM-DATA CONTENT HIDDEN]'' s'
                        else s')))"

text \<open>
  \<^verbatim>\<open>dumpResponse\<close> reads the clock, then dumps. Dumping dereferences the response:
  on the nil response the call panics.
\<close>

definition dumpResponse ::
  "env \<Rightarrow> 's Printer \<Rightarrow> Response option \<Rightarrow> Time \<Rightarrow> 's world \<Rightarrow> Response option outcome \<times> 's world" where
  "dumpResponse e L res start w =
     (let endTime = Now e (ticks w);
          w' = w\<lparr>ticks := ticks w + 1\<rparr>
      in case res of
           None \<Rightarrow> (Panicked, w')
         | Some r \<Rightarrow>
             (case DumpResponse e r True of
                (Inl err, r') \<Rightarrow>
                  (Returned (Some r'),
                   w'\<lparr>sink := Printf L (T e ''An error occurred while dumping response:\<newline>{{.Error}}\<newline>''
                                          [(''Error'', message err)]) [] (sink w')\<rparr>)
              | (Inr dumpedResponse, r') \<Rightarrow>
                  (Returned (Some r'),
                   w'\<lparr>sink := Printf L ''\<newline>%s [%s] %s %.0fms\<newline>%s\<newline>''
                                  [Str (HeaderColor e (T e ''RESPONSE:'' [])),
                                   Str (RFC3339 e endTime),
                                   Str (HeaderColor e (T e ''Elapsed:'' [])),
                                   Millis (Sub endTime start),
                                   Str (Sanitize e dumpedResponse)] (sink w')\<rparr>)))"

definition RoundTrip ::
  "env \<Rightarrow> 's Printer \<Rightarrow> TraceLoggingTransport \<Rightarrow> Request \<Rightarrow> 's world
     \<Rightarrow> (Response option \<times> error option) outcome \<times> 's world" where
  "RoundTrip e L r req w =
     (let start = Now e (ticks w);
          w0 = w\<lparr>ticks := ticks w + 1\<rparr>;
          (req', s') = dumpRequest e L req start (sink w0);
          w' = w0\<lparr>sink := s'\<rparr>;
          (resp, err) = rt r req'
      in if err \<noteq> None then (Returned (resp, err), w')
         else case dumpResponse e L resp start w' of
                (Panicked, w'') \<Rightarrow> (Panicked, w'')
              | (Returned resp', w'') \<Rightarrow> (Returned (resp', err), w''))"

subsection \<open>Redaction\<close>

text \<open>
  The placeholder, as the comment on \<^verbatim>\<open>TraceLoggingTransport\<close> and the specification
  give it.
\<close>

definition privateDataPlaceholder :: string where
  "privateDataPlaceholder = ''[PRIVATE DATA HIDDEN]''"

text \<open>
  Modelled from the spec: \<^verbatim>\<open>trace.Sanitize\<close> is not in the source tree. The
  specification has it scan the text for the known sensitive patterns and replace
  each match with the fixed placeholder. Here the patterns are the literal texts
  \<open>pats\<close>; the scan goes from left to right, a match at the current position is
  hidden as a whole, any other character is kept. The result of the scan says, piece
  by piece, what becomes of the text.
\<close>

datatype piece = Kept char | Hidden

function redact :: "string list \<Rightarrow> string \<Rightarrow> piece list" where
  "redact pats [] = []"
| "redact pats (c # cs) =
     (case find (\<lambda>p. p \<noteq> [] \<and> prefix p (c # cs)) pats of
        Some p \<Rightarrow> Hidden # redact pats (drop (length p) (c # cs))
      | None \<Rightarrow> Kept c # redact pats cs)"
  by pat_completeness auto
termination
  by (relation "measure (\<lambda>(pats, s). length s)") (auto simp: find_Some_iff)

text \<open>
  Modelled from the spec: what \<^verbatim>\<open>trace.Sanitize\<close> writes for a piece, a kept character
  as it is, a hidden match as the placeholder.
\<close>

fun render :: "piece \<Rightarrow> string" where
  "render (Kept c) = [c]"
| "render Hidden = privateDataPlaceholder"

text \<open>
  Modelled from the spec: \<^verbatim>\<open>trace.Sanitize\<close> for the patterns \<open>pats\<close>, the scan written
  out as text.
\<close>

definition Sanitize_spec :: "string list \<Rightarrow> string \<Rightarrow> string" where
  "Sanitize_spec pats text = concat (map render (redact pats text))"

subsection \<open>Sample inputs\<close>

text \<open>
  An environment with identity translation and colouring, a redaction rule for one
  secret, and dumps that fail on a request without a target and on a response
  without a status; requests and responses; round trippers that answer, that answer
  with the body they were sent, that answer with a response that cannot be dumped,
  and that fail.
\<close>

definition sample_env :: env where
  "sample_env =
     \<lparr>DefaultTransport = (\<lambda>req. (None, Some (Error ''no network''))),
      Now = (\<lambda>n. \<lparr>wall = 1000000 * int n, mono = 1500000 * int n\<rparr>),
      RFC3339 = (\<lambda>t. ''2019-01-01T00:00:00Z''),
      T = (\<lambda>template subst. template),
      HeaderColor = (\<lambda>s. s),
      Sanitize = Sanitize_spec [''secret123''],
      request_head = (\<lambda>req. if URL req = [] then Inl (Error ''no target'')
                             else Inr (Method req @ '' '' @ URL req @ '' '')),
      response_head = (\<lambda>res. if Status res = [] then Inl (Error ''no status'')
                              else Inr (Status res @ '' ''))\<rparr>"

definition form_request :: Request where
  "form_request =
     \<lparr>Header = [''Content-Type'' \<mapsto> [''application/x-www-form-urlencoded'']],
      Body = Some (Reader ''a=1&b=2''), Method = ''POST'', URL = ''/login''\<rparr>"

definition multipart_request :: Request where
  "multipart_request =
     \<lparr>Header = [''Content-Type'' \<mapsto> [''multipart/form-data; boundary=xyz'']],
      Body = Some (Reader ''--xyz''), Method = ''POST'', URL = ''/upload''\<rparr>"

definition broken_multipart_request :: Request where
  "broken_multipart_request =
     \<lparr>Header = [''Content-Type'' \<mapsto> [''multipart/form-data; boundary=xyz'']],
      Body = Some (Reader ''--xyz''), Method = ''POST'', URL = []\<rparr>"



definition ok_response :: Response where
  "ok_response = \<lparr>Header = Map.empty, Body = Some (Reader ''pong''), Status = ''200 OK''\<rparr>"

definition broken_response :: Response where
  "broken_response = \<lparr>Header = Map.empty, Body = Some (Reader ''pong''), Status = []\<rparr>"


definition echo_transport :: TraceLoggingTransport where
  "echo_transport =
     \<lparr>rt = (\<lambda>req. (Some \<lparr>Header = Map.empty, Body = Body req, Status = ''200 OK''\<rparr>, None))\<rparr>"

definition broken_transport :: TraceLoggingTransport where
  "broken_transport = \<lparr>rt = (\<lambda>req. (Some broken_response, None))\<rparr>"

definition failing_transport :: TraceLoggingTransport where
  "failing_transport = \<lparr>rt = (\<lambda>req. (Some ok_response, Some (Error ''connection refused'')))\<rparr>"

definition fresh :: "call list world" where
  "fresh = \<lparr>sink = [], ticks = 0\<rparr>"

section \<open>Properties\<close>

subsection \<open>Library functions\<close>

text \<open>\<open>Contains\<close> is the relation of being a contiguous part.\<close>

lemma Contains_sublist: "Contains s substr \<longleftrightarrow> sublist substr s"
  by (induction s) (auto simp: sublist_Cons_right)

subsection \<open>The dumps leave the message as it was\<close>

lemma DumpRequest_eq:
  "DumpRequest e req body =
     (case request_head e req of
        Inl err \<Rightarrow> Inl err
      | Inr head \<Rightarrow> Inr (head @ (if body then unreadBytes (Body req) else [])),
      req)"
  by (cases "Body req"; cases "request_head e req")
     (simp_all add: DumpRequest_def drainBody_def unreadBytes_def)

lemma DumpResponse_eq:
  "DumpResponse e res body =
     (case response_head e res of
        Inl err \<Rightarrow> Inl err
      | Inr head \<Rightarrow> Inr (head @ (if body then unreadBytes (Body res) else [])),
      res)"
  by (cases "Body res"; cases "response_head e res")
     (simp_all add: DumpResponse_def drainBody_def unreadBytes_def)

lemma dumpRequest_eq:
  "dumpRequest e L req start s =
     (req,
      case request_head e req of
        Inl err \<Rightarrow>
          Printf L (T e ''An error occurred while dumping request:\<newline>{{.Error}}\<newline>''
                     [(''Error'', message err)]) [] s
      | Inr head \<Rightarrow>
          if Contains (Header_Get (Header req) ''Content-Type'') ''multipart/form-data''
          then Println L ''[MULTIPART/FORM-DATA CONTENT HIDDEN]''
                 (Printf L ''\<newline>%s [%s]\<newline>%s\<newline>''
                    [Str (HeaderColor e (T e ''REQUEST:'' [])), Str (RFC3339 e start),
                     Str (Sanitize e head)] s)
          else Printf L ''\<newline>%s [%s]\<newline>%s\<newline>''
                 [Str (HeaderColor e (T e ''REQUEST:'' [])), Str (RFC3339 e start),
                  Str (Sanitize e (head @ unreadBytes (Body req)))] s)"
  by (cases "request_head e req") (simp_all add: dumpRequest_def DumpRequest_eq Let_def)

lemma dumpResponse_Some:
  "dumpResponse e L (Some res) start w =
     (Returned (Some res),
      \<lparr>sink =
         (case response_head e res of
            Inl err \<Rightarrow>
              Printf L (T e ''An error occurred while dumping response:\<newline>{{.Error}}\<newline>''
                         [(''Error'', message err)]) [] (sink w)
          | Inr head \<Rightarrow>
              Printf L ''\<newline>%s [%s] %s %.0fms\<newline>%s\<newline>''
                [Str (HeaderColor e (T e ''RESPONSE:'' [])), Str (RFC3339 e (Now e (ticks w))),
                 Str (HeaderColor e (T e ''Elapsed:'' [])), Millis (Sub (Now e (ticks w)) start),
                 Str (Sanitize e (head @ unreadBytes (Body res)))] (sink w)),
       ticks = ticks w + 1\<rparr>)"
  by (cases "response_head e res") (simp_all add: dumpResponse_def DumpResponse_eq Let_def)

lemma dumpRequest_request: "fst (dumpRequest e L req start s) = req"
  by (simp add: dumpRequest_eq)

lemma dumpResponse_response: "fst (dumpResponse e L (Some res) start w) = Returned (Some res)"
  by (simp add: dumpResponse_Some)

lemma RoundTrip_error:
  "rt r req = (resp, Some err) \<Longrightarrow>
   RoundTrip e L r req w =
     (Returned (resp, Some err),
      \<lparr>sink = snd (dumpRequest e L req (Now e (ticks w)) (sink w)), ticks = ticks w + 1\<rparr>)"
  by (cases w) (simp add: RoundTrip_def Let_def split_beta dumpRequest_request)

lemma RoundTrip_success:
  "rt r req = (Some res, None) \<Longrightarrow>
   RoundTrip e L r req w =
     (Returned (Some res, None),
      snd (dumpResponse e L (Some res) (Now e (ticks w))
            \<lparr>sink = snd (dumpRequest e L req (Now e (ticks w)) (sink w)), ticks = ticks w + 1\<rparr>))"
proof -
  assume ok: "rt r req = (Some res, None)"
  let ?w = "\<lparr>sink = snd (dumpRequest e L req (Now e (ticks w)) (sink w)), ticks = ticks w + 1\<rparr>"
  obtain w'' where d: "dumpResponse e L (Some res) (Now e (ticks w)) ?w = (Returned (Some res), w'')"
    using dumpResponse_response [of e L res "Now e (ticks w)" ?w]
    by (cases "dumpResponse e L (Some res) (Now e (ticks w)) ?w") simp
  from ok d show ?thesis
    by (cases w) (simp add: RoundTrip_def Let_def split_beta dumpRequest_request)
qed

lemma RoundTrip_nil:
  "rt r req = (None, None) \<Longrightarrow> fst (RoundTrip e L r req w) = Panicked"
  by (simp add: RoundTrip_def Let_def split_beta dumpRequest_request dumpResponse_def)

subsection \<open>What the caller gets back\<close>

text \<open>
  C1. When the wrapped round tripper returns an error, \<open>RoundTrip\<close> returns that very
  error, and the call ends there: the sink is in the state in which \<open>dumpRequest\<close>
  left it and the clock has been read once, so \<open>dumpResponse\<close> has not run and
  nothing about the response has been written.
\<close>

theorem C1_transport_failure:
  assumes "snd (rt r req) = Some err"
  shows "(\<exists>resp. fst (RoundTrip e L r req w) = Returned (resp, Some err)) \<and>
         snd (RoundTrip e L r req w) =
           \<lparr>sink = snd (dumpRequest e L req (Now e (ticks w)) (sink w)), ticks = ticks w + 1\<rparr>"
proof -
  obtain resp where "rt r req = (resp, Some err)"
    using assms by (cases "rt r req") simp
  then show ?thesis
    by (simp add: RoundTrip_error)
qed

theorem C1_transport_failure_witness:
  "snd (rt failing_transport form_request) = Some (Error ''connection refused'') \<and>
   (\<exists>resp. fst (RoundTrip sample_env recorder failing_transport form_request fresh) =
      Returned (resp, Some (Error ''connection refused''))) \<and>
   sink (snd (RoundTrip sample_env recorder failing_transport form_request fresh)) =
     [PrintfCall ''\<newline>%s [%s]\<newline>%s\<newline>''
        [Str ''REQUEST:'', Str ''2019-01-01T00:00:00Z'', Str ''POST /login a=1&b=2'']] \<and>
   ticks (snd (RoundTrip sample_env recorder failing_transport form_request fresh)) = 1"
proof -
  have h: "snd (rt failing_transport form_request) = Some (Error ''connection refused'')"
    by (simp add: failing_transport_def)
  have s: "snd (dumpRequest sample_env recorder form_request (Now sample_env (ticks fresh)) (sink fresh)) =
     [PrintfCall ''\<newline>%s [%s]\<newline>%s\<newline>''
        [Str ''REQUEST:'', Str ''2019-01-01T00:00:00Z'', Str ''POST /login a=1&b=2'']]"
    by (simp add: dumpRequest_eq sample_env_def form_request_def fresh_def recorder_def
        Header_Get_def unreadBytes_def Sanitize_spec_def)
  show ?thesis
    using h s C1_transport_failure [OF h, of sample_env recorder fresh]
    by (simp add: fresh_def)
qed

text \<open>
  C10. The response that the wrapped round tripper returns next to an error is
  returned as it is, next to that error.
\<close>

theorem C10_response_beside_error:
  assumes "rt r req = (resp, Some err)"
  shows "fst (RoundTrip e L r req w) = Returned (resp, Some err)"
  using assms by (simp add: RoundTrip_error)

theorem C10_response_beside_error_witness:
  "rt failing_transport form_request = (Some ok_response, Some (Error ''connection refused'')) \<and>
   fst (RoundTrip sample_env recorder failing_transport form_request fresh) =
     Returned (Some ok_response, Some (Error ''connection refused''))"
proof -
  have h: "rt failing_transport form_request =
      (Some ok_response, Some (Error ''connection refused''))"
    by (simp add: failing_transport_def)
  show ?thesis
    using h C10_response_beside_error [OF h, of sample_env recorder fresh] by simp
qed

text \<open>
  C5. When the wrapped round tripper returns a response and no error, it has been
  called with the request as \<open>RoundTrip\<close> received it, and \<open>RoundTrip\<close> returns that
  response and no error.
\<close>

theorem C5_success_passthrough:
  assumes "rt r req = (Some res, None)"
  shows "fst (dumpRequest e L req (Now e (ticks w)) (sink w)) = req \<and>
         fst (RoundTrip e L r req w) = Returned (Some res, None)"
  using assms by (simp add: RoundTrip_success dumpRequest_request)

theorem C5_success_passthrough_witness:
  "rt echo_transport form_request =
     (Some \<lparr>Header = Map.empty, Body = Some (Reader ''a=1&b=2''), Status = ''200 OK''\<rparr>, None) \<and>
   fst (dumpRequest sample_env recorder form_request (Now sample_env (ticks fresh)) (sink fresh)) =
     form_request \<and>
   fst (RoundTrip sample_env recorder echo_transport form_request fresh) =
     Returned (Some \<lparr>Header = Map.empty, Body = Some (Reader ''a=1&b=2''), Status = ''200 OK''\<rparr>,
               None)"
proof -
  have h: "rt echo_transport form_request =
     (Some \<lparr>Header = Map.empty, Body = Some (Reader ''a=1&b=2''), Status = ''200 OK''\<rparr>, None)"
    by (simp add: echo_transport_def form_request_def)
  show ?thesis
    using h C5_success_passthrough [OF h, of sample_env recorder fresh] by simp
qed

text \<open>
  C8. The outcome of \<open>RoundTrip\<close> is the same with any log sink, in any state, as
  with the sink of disabled tracing.
\<close>

theorem C8_sink_independence:
  "fst (RoundTrip e L r req w) = fst (RoundTrip e NullLogger r req v)"
proof (cases "rt r req")
  case (Pair resp err)
  show ?thesis
  proof (cases err)
    case (Some x)
    with Pair show ?thesis by (simp add: RoundTrip_error)
  next
    case None
    with Pair show ?thesis
      by (cases resp) (simp_all add: RoundTrip_nil RoundTrip_success)
  qed
qed

text \<open>
  C6. A dump reads the body into a buffer and puts a stream over the buffered bytes
  back: the message is as before. So the request that reaches the wrapped round
  tripper still has every byte of its body unread, and so has the response that
  \<open>RoundTrip\<close> returns.
\<close>

theorem C6_bodies_restored:
  "snd (DumpRequest e req body) = req \<and>
   snd (DumpResponse e res body) = res \<and>
   unreadBytes (Body (fst (dumpRequest e L req start s))) = unreadBytes (Body req) \<and>
   (rt r req = (Some res, None) \<longrightarrow>
      (\<exists>res'. fst (RoundTrip e L r req w) = Returned (Some res', None) \<and>
              unreadBytes (Body res') = unreadBytes (Body res)))"
  by (simp add: DumpRequest_eq DumpResponse_eq dumpRequest_request RoundTrip_success)

theorem C6_bodies_restored_witness:
  "fst (DumpRequest sample_env form_request True) = Inr ''POST /login a=1&b=2'' \<and>
   unreadBytes (Body (snd (DumpRequest sample_env form_request True))) = ''a=1&b=2'' \<and>
   fst (DumpResponse sample_env ok_response True) = Inr ''200 OK pong'' \<and>
   unreadBytes (Body (snd (DumpResponse sample_env ok_response True))) = ''pong'' \<and>
   unreadBytes (Body (fst (dumpRequest sample_env recorder form_request (Now sample_env 0) []))) =
     ''a=1&b=2'' \<and>
   (\<exists>res'. fst (RoundTrip sample_env recorder echo_transport form_request fresh) =
              Returned (Some res', None) \<and> unreadBytes (Body res') = ''a=1&b=2'')"
proof -
  let ?res = "\<lparr>Header = Map.empty, Body = Some (Reader ''a=1&b=2''), Status = ''200 OK''\<rparr>"
  have h: "rt echo_transport form_request = (Some ?res, None)"
    by (simp add: echo_transport_def form_request_def)
  have t: "fst (DumpRequest sample_env form_request True) = Inr ''POST /login a=1&b=2''"
    "fst (DumpResponse sample_env ok_response True) = Inr ''200 OK pong''"
    by (simp_all add: DumpRequest_def DumpResponse_def drainBody_def sample_env_def
        form_request_def ok_response_def)
  have b: "unreadBytes (Body form_request) = ''a=1&b=2''" "unreadBytes (Body ok_response) = ''pong''"
    "unreadBytes (Body ?res) = ''a=1&b=2''"
    by (simp_all add: unreadBytes_def form_request_def ok_response_def)
  show ?thesis
    using h t b
      C6_bodies_restored [of sample_env form_request True ?res recorder
        "Now sample_env 0" "[]" echo_transport fresh]
      C6_bodies_restored [of sample_env form_request True ok_response recorder
        "Now sample_env 0" "[]" echo_transport fresh]
    by simp
qed

subsection \<open>What redaction removes\<close>







subsection \<open>What is written to the sink\<close>

lemma dumpRequest_recorded:
  "snd (dumpRequest e recorder req start s) =
     s @ (case request_head e req of
            Inl err \<Rightarrow>
              [PrintfCall (T e ''An error occurred while dumping request:\<newline>{{.Error}}\<newline>''
                             [(''Error'', message err)]) []]
          | Inr head \<Rightarrow>
              if Contains (Header_Get (Header req) ''Content-Type'') ''multipart/form-data''
              then [PrintfCall ''\<newline>%s [%s]\<newline>%s\<newline>''
                      [Str (HeaderColor e (T e ''REQUEST:'' [])), Str (RFC3339 e start),
                       Str (Sanitize e head)],
                    PrintlnCall ''[MULTIPART/FORM-DATA CONTENT HIDDEN]'']
              else [PrintfCall ''\<newline>%s [%s]\<newline>%s\<newline>''
                      [Str (HeaderColor e (T e ''REQUEST:'' [])), Str (RFC3339 e start),
                       Str (Sanitize e (head @ unreadBytes (Body req)))]])"
  by (cases "request_head e req") (simp_all add: dumpRequest_eq recorder_def)

lemma dumpResponse_recorded:
  "sink (snd (dumpResponse e recorder (Some res) start w)) =
     sink w @ [case response_head e res of
                 Inl err \<Rightarrow>
                   PrintfCall (T e ''An error occurred while dumping response:\<newline>{{.Error}}\<newline>''
                                 [(''Error'', message err)]) []
               | Inr head \<Rightarrow>
                   PrintfCall ''\<newline>%s [%s] %s %.0fms\<newline>%s\<newline>''
                     [Str (HeaderColor e (T e ''RESPONSE:'' [])), Str (RFC3339 e (Now e (ticks w))),
                      Str (HeaderColor e (T e ''Elapsed:'' [])), Millis (Sub (Now e (ticks w)) start),
                      Str (Sanitize e (head @ unreadBytes (Body res)))]]"
  by (cases "response_head e res") (simp_all add: dumpResponse_Some recorder_def)

lemma RoundTrip_nil_sink:
  "rt r req = (None, None) \<Longrightarrow>
   sink (snd (RoundTrip e L r req w)) = snd (dumpRequest e L req (Now e (ticks w)) (sink w))"
  by (cases w) (simp add: RoundTrip_def Let_def split_beta dumpRequest_request dumpResponse_def)

lemma RoundTrip_recorded_success:
  "rt r req = (Some res, None) \<Longrightarrow>
   sink (snd (RoundTrip e recorder r req w)) =
     snd (dumpRequest e recorder req (Now e (ticks w)) (sink w)) @
     [case response_head e res of
        Inl err \<Rightarrow>
          PrintfCall (T e ''An error occurred while dumping response:\<newline>{{.Error}}\<newline>''
                        [(''Error'', message err)]) []
      | Inr head \<Rightarrow>
          PrintfCall ''\<newline>%s [%s] %s %.0fms\<newline>%s\<newline>''
            [Str (HeaderColor e (T e ''RESPONSE:'' [])), Str (RFC3339 e (Now e (ticks w + 1))),
             Str (HeaderColor e (T e ''Elapsed:'' [])),
             Millis (Sub (Now e (ticks w + 1)) (Now e (ticks w))),
             Str (Sanitize e (head @ unreadBytes (Body res)))]]"
  by (cases "response_head e res") (simp_all add: RoundTrip_success dumpResponse_recorded)

lemma RoundTrip_recorded_prefix:
  "\<exists>rest. sink (snd (RoundTrip e recorder r req w)) =
            snd (dumpRequest e recorder req (Now e (ticks w)) (sink w)) @ rest"
proof (cases "rt r req")
  case (Pair resp err)
  show ?thesis
  proof (cases err)
    case (Some x)
    with Pair show ?thesis by (simp add: RoundTrip_error)
  next
    case None
    show ?thesis
    proof (cases resp)
      case n: None
      with Pair None show ?thesis by (simp add: RoundTrip_nil_sink)
    next
      case (Some res)
      with Pair None show ?thesis by (simp add: RoundTrip_recorded_success)
    qed
  qed
qed

subsection \<open>The request trace\<close>

text \<open>
  C2. When the request can be dumped, the trace of the request is one \<open>Printf\<close> call
  whose last argument is the redacted dump. For a request whose \<^verbatim>\<open>Content-Type\<close> does
  not contain \<^verbatim>\<open>multipart/form-data\<close> the dump is the one made with the body, the head
  followed by the bytes of the body; otherwise it is the one made without the body,
  and the line \<^verbatim>\<open>[MULTIPART/FORM-DATA CONTENT HIDDEN]\<close> is written right after it.
\<close>

theorem C2_body_unless_multipart:
  assumes "request_head e req = Inr head"
  shows "fst (DumpRequest e req True) = Inr (head @ unreadBytes (Body req)) \<and>
         fst (DumpRequest e req False) = Inr head \<and>
         snd (dumpRequest e recorder req start s) =
           (if Contains (Header_Get (Header req) ''Content-Type'') ''multipart/form-data''
            then s @ [PrintfCall ''\<newline>%s [%s]\<newline>%s\<newline>''
                        [Str (HeaderColor e (T e ''REQUEST:'' [])), Str (RFC3339 e start),
                         Str (Sanitize e head)],
                      PrintlnCall ''[MULTIPART/FORM-DATA CONTENT HIDDEN]'']
            else s @ [PrintfCall ''\<newline>%s [%s]\<newline>%s\<newline>''
                        [Str (HeaderColor e (T e ''REQUEST:'' [])), Str (RFC3339 e start),
                         Str (Sanitize e (head @ unreadBytes (Body req)))]])"
  using assms by (simp add: dumpRequest_recorded DumpRequest_eq)

theorem C2_body_unless_multipart_witness:
  "request_head sample_env form_request = Inr ''POST /login '' \<and>
   \<not> Contains (Header_Get (Header form_request) ''Content-Type'') ''multipart/form-data'' \<and>
   snd (dumpRequest sample_env recorder form_request (Now sample_env 0) []) =
     [PrintfCall ''\<newline>%s [%s]\<newline>%s\<newline>''
        [Str ''REQUEST:'', Str ''2019-01-01T00:00:00Z'', Str ''POST /login a=1&b=2'']] \<and>
   request_head sample_env multipart_request = Inr ''POST /upload '' \<and>
   Contains (Header_Get (Header multipart_request) ''Content-Type'') ''multipart/form-data'' \<and>
   snd (dumpRequest sample_env recorder multipart_request (Now sample_env 0) []) =
     [PrintfCall ''\<newline>%s [%s]\<newline>%s\<newline>''
        [Str ''REQUEST:'', Str ''2019-01-01T00:00:00Z'', Str ''POST /upload ''],
      PrintlnCall ''[MULTIPART/FORM-DATA CONTENT HIDDEN]'']"
proof -
  have f: "request_head sample_env form_request = Inr ''POST /login ''"
    and m: "request_head sample_env multipart_request = Inr ''POST /upload ''"
    by (simp_all add: sample_env_def form_request_def multipart_request_def)
  have cf: "\<not> Contains (Header_Get (Header form_request) ''Content-Type'') ''multipart/form-data''"
    and cm: "Contains (Header_Get (Header multipart_request) ''Content-Type'') ''multipart/form-data''"
    by (simp_all add: form_request_def multipart_request_def Header_Get_def)
  have v: "HeaderColor sample_env (T sample_env ''REQUEST:'' []) = ''REQUEST:''"
    "RFC3339 sample_env (Now sample_env 0) = ''2019-01-01T00:00:00Z''"
    "Sanitize sample_env (''POST /login '' @ unreadBytes (Body form_request)) = ''POST /login a=1&b=2''"
    "Sanitize sample_env ''POST /upload '' = ''POST /upload ''"
    by (simp_all add: sample_env_def form_request_def unreadBytes_def Sanitize_spec_def)
  show ?thesis
    using f m cf cm v
      C2_body_unless_multipart [OF f, of "Now sample_env 0" "[]"]
      C2_body_unless_multipart [OF m, of "Now sample_env 0" "[]"]
    by simp
qed

text \<open>
  C9. For a request whose \<^verbatim>\<open>Content-Type\<close> contains \<^verbatim>\<open>multipart/form-data\<close> and whose
  dump fails, \<open>dumpRequest\<close> writes the line about the failure and nothing else:
  neither a dump nor the line \<^verbatim>\<open>[MULTIPART/FORM-DATA CONTENT HIDDEN]\<close>.
\<close>

theorem C9_no_marker_without_dump:
  assumes "Contains (Header_Get (Header req) ''Content-Type'') ''multipart/form-data''"
    and "fst (DumpRequest e req False) = Inl err"
  shows "snd (dumpRequest e recorder req start s) =
           s @ [PrintfCall (T e ''An error occurred while dumping request:\<newline>{{.Error}}\<newline>''
                              [(''Error'', message err)]) []]"
proof -
  from assms(2) have "request_head e req = Inl err"
    by (cases "request_head e req") (simp_all add: DumpRequest_eq)
  then show ?thesis
    by (simp add: dumpRequest_recorded)
qed

theorem C9_no_marker_without_dump_witness:
  "Contains (Header_Get (Header broken_multipart_request) ''Content-Type'') ''multipart/form-data'' \<and>
   fst (DumpRequest sample_env broken_multipart_request False) = Inl (Error ''no target'') \<and>
   snd (dumpRequest sample_env recorder broken_multipart_request (Now sample_env 0) []) =
     [PrintfCall ''An error occurred while dumping request:\<newline>{{.Error}}\<newline>'' []]"
proof -
  have c: "Contains (Header_Get (Header broken_multipart_request) ''Content-Type'')
             ''multipart/form-data''"
    by (simp add: broken_multipart_request_def Header_Get_def)
  have d: "fst (DumpRequest sample_env broken_multipart_request False) = Inl (Error ''no target'')"
    by (simp add: DumpRequest_def sample_env_def broken_multipart_request_def)
  have t: "T sample_env ''An error occurred while dumping request:\<newline>{{.Error}}\<newline>''
             [(''Error'', message (Error ''no target''))] =
           ''An error occurred while dumping request:\<newline>{{.Error}}\<newline>''"
    by (simp add: sample_env_def)
  show ?thesis
    using c d t C9_no_marker_without_dump [OF c d, of "Now sample_env 0" "[]"]
    by simp
qed

subsection \<open>Dumps that fail\<close>

text \<open>
  C4. A dump that fails is not seen by the caller. When the dump of the request
  fails, the first thing written is the translated line about that failure, and the
  call goes on. When the wrapped round tripper returns a response and no error and
  the dump of the response fails, the last thing written is the translated line about
  that failure, and the response and no error are returned. Whatever the two dumps
  do, and whether the wrapped round tripper returns an error or not, \<open>RoundTrip\<close>
  returns what the wrapped round tripper returned for the request (the two nil
  results aside, where the call panics).
\<close>

theorem C4_dump_failures_not_fatal:
  "(fst (DumpRequest e req
          (\<not> Contains (Header_Get (Header req) ''Content-Type'') ''multipart/form-data'')) = Inl err \<longrightarrow>
      (\<exists>rest. sink (snd (RoundTrip e recorder r req w)) =
         sink w @
         PrintfCall (T e ''An error occurred while dumping request:\<newline>{{.Error}}\<newline>''
                       [(''Error'', message err)]) [] # rest)) \<and>
   (rt r req = (Some res, None) \<and> fst (DumpResponse e res True) = Inl err' \<longrightarrow>
      fst (RoundTrip e recorder r req w) = Returned (Some res, None) \<and>
      (\<exists>before. sink (snd (RoundTrip e recorder r req w)) =
         before @
         [PrintfCall (T e ''An error occurred while dumping response:\<newline>{{.Error}}\<newline>''
                        [(''Error'', message err')]) []])) \<and>
   (rt r req \<noteq> (None, None) \<longrightarrow> fst (RoundTrip e L r req v) = Returned (rt r req))"
proof (intro conjI impI)
  assume "fst (DumpRequest e req
          (\<not> Contains (Header_Get (Header req) ''Content-Type'') ''multipart/form-data'')) = Inl err"
  then have "request_head e req = Inl err"
    by (cases "request_head e req") (simp_all add: DumpRequest_eq)
  then have "snd (dumpRequest e recorder req (Now e (ticks w)) (sink w)) =
      sink w @
      [PrintfCall (T e ''An error occurred while dumping request:\<newline>{{.Error}}\<newline>''
                     [(''Error'', message err)]) []]"
    by (simp add: dumpRequest_recorded)
  with RoundTrip_recorded_prefix [of e r req w]
  show "\<exists>rest. sink (snd (RoundTrip e recorder r req w)) =
         sink w @
         PrintfCall (T e ''An error occurred while dumping request:\<newline>{{.Error}}\<newline>''
                       [(''Error'', message err)]) [] # rest"
    by auto
next
  assume a: "rt r req = (Some res, None) \<and> fst (DumpResponse e res True) = Inl err'"
  then show "fst (RoundTrip e recorder r req w) = Returned (Some res, None)"
    by (simp add: RoundTrip_success)
  from a have "response_head e res = Inl err'"
    by (cases "response_head e res") (simp_all add: DumpResponse_eq)
  with a show "\<exists>before. sink (snd (RoundTrip e recorder r req w)) =
         before @
         [PrintfCall (T e ''An error occurred while dumping response:\<newline>{{.Error}}\<newline>''
                        [(''Error'', message err')]) []]"
    by (simp add: RoundTrip_recorded_success)
next
  assume n: "rt r req \<noteq> (None, None)"
  obtain resp err'' where p: "rt r req = (resp, err'')"
    by (cases "rt r req")
  show "fst (RoundTrip e L r req v) = Returned (rt r req)"
  proof (cases err'')
    case (Some x)
    with p show ?thesis by (simp add: RoundTrip_error)
  next
    case None
    with n p obtain res' where "resp = Some res'"
      by (cases resp) auto
    with p None show ?thesis by (simp add: RoundTrip_success)
  qed
qed

theorem C4_dump_failures_not_fatal_witness:
  "fst (DumpRequest sample_env broken_multipart_request False) = Inl (Error ''no target'') \<and>
   rt broken_transport broken_multipart_request = (Some broken_response, None) \<and>
   fst (DumpResponse sample_env broken_response True) = Inl (Error ''no status'') \<and>
   fst (RoundTrip sample_env recorder broken_transport broken_multipart_request fresh) =
     Returned (Some broken_response, None) \<and>
   (\<exists>rest. sink (snd (RoundTrip sample_env recorder broken_transport broken_multipart_request fresh)) =
      PrintfCall ''An error occurred while dumping request:\<newline>{{.Error}}\<newline>'' [] # rest) \<and>
   (\<exists>before. sink (snd (RoundTrip sample_env recorder broken_transport broken_multipart_request fresh)) =
      before @ [PrintfCall ''An error occurred while dumping response:\<newline>{{.Error}}\<newline>'' []]) \<and>
   fst (RoundTrip sample_env NullLogger broken_transport broken_multipart_request \<lparr>sink = (), ticks = 7\<rparr>) =
     Returned (Some broken_response, None)"
proof -
  have c: "Contains (Header_Get (Header broken_multipart_request) ''Content-Type'')
             ''multipart/form-data''"
    by (simp add: broken_multipart_request_def Header_Get_def)
  have d: "fst (DumpRequest sample_env broken_multipart_request False) = Inl (Error ''no target'')"
    by (simp add: DumpRequest_def sample_env_def broken_multipart_request_def)
  have r: "rt broken_transport broken_multipart_request = (Some broken_response, None)"
    by (simp add: broken_transport_def)
  have d': "fst (DumpResponse sample_env broken_response True) = Inl (Error ''no status'')"
    by (simp add: DumpResponse_def drainBody_def sample_env_def broken_response_def)
  have t: "T sample_env ''An error occurred while dumping request:\<newline>{{.Error}}\<newline>''
             [(''Error'', message (Error ''no target''))] =
           ''An error occurred while dumping request:\<newline>{{.Error}}\<newline>''"
    "T sample_env ''An error occurred while dumping response:\<newline>{{.Error}}\<newline>''
             [(''Error'', message (Error ''no status''))] =
           ''An error occurred while dumping response:\<newline>{{.Error}}\<newline>''"
    by (simp_all add: sample_env_def)
  show ?thesis
    using c d r d' t
      C4_dump_failures_not_fatal [of sample_env broken_multipart_request "Error ''no target''"
        broken_transport fresh broken_response "Error ''no status''" NullLogger
        "\<lparr>sink = (), ticks = 7\<rparr>"]
    by (simp add: fresh_def)
qed


subsection \<open>Redaction before writing\<close>





subsection \<open>The elapsed time\<close>











end
